theory Spec2Isabelle
  imports Main
begin

section \<open>The cart service of the QKart backend\<close>

text \<open>
  The service file exports five asynchronous functions: \<open>getCartByUser\<close>,
  \<open>addProductToCart\<close>, \<open>updateProductInCart\<close>, \<open>deleteProductFromCart\<close> and
  \<open>checkout\<close>. They read and write two MongoDB collections through the Mongoose
  models \<open>Cart\<close> and \<open>Product\<close>, and \<open>checkout\<close> also changes and saves the user
  document it is given.

  The embedding is sequential: a call runs from its first statement to its last, and
  every \<open>save()\<close> takes effect where it is issued. A thrown \<open>ApiError\<close> is the left
  summand of the result; the database is returned next to it, since a call can have
  written to it before it throws. JavaScript numbers are modelled by \<open>int\<close>.

  An \<open>ObjectId\<close> is modelled by its print, the string of 24 hexadecimal digits in
  lower case that \<open>toString()\<close> gives. The comparison \<open>productId == product._id\<close> of
  the loops compares the request string with that print. A query on \<open>_id\<close> does
  not: Mongoose first casts the request string to an \<open>ObjectId\<close>, and throws a
  \<open>CastError\<close> when it cannot.
\<close>

subsection \<open>Errors\<close>

text \<open>
  The members of the \<open>http-status\<close> package that the service throws with
  (400, 404, 500), and \<open>CONFLICT\<close> (409), which the package has as well.
\<close>

datatype httpStatus = BAD_REQUEST | NOT_FOUND | CONFLICT | INTERNAL_SERVER_ERROR

text \<open>
  What a call can throw: an \<open>ApiError\<close> of the service, or the \<open>CastError\<close> of a
  query whose \<open>_id\<close> does not cast, which the service does not catch.
\<close>

datatype thrown = ApiError (statusCode: httpStatus) (message: string) | CastError

subsection \<open>Documents\<close>

text \<open>
  Only the fields that the service reads or writes are kept. A cart item embeds the
  product document that \<open>addProductToCart\<close> pushed into it. \<open>product_id\<close> is the
  field \<open>_id\<close>, as its print.
\<close>

record product =
  product_id :: string
  cost :: int

record cartItem =
  product :: product
  quantity :: int

record cart =
  email :: string
  cartItems :: "cartItem list"
  paymentOption :: string

text \<open>
  The user document: \<open>user.email\<close>, \<open>user.walletMoney\<close>, and the address-configured
  flag that the specification gives the account.
\<close>

record user =
  user_email :: string
  walletMoney :: int
  addressConfigured :: bool

text \<open>
  Modelled from the spec: the method \<open>hasSetNonDefaultAddress\<close> of the User model is
  not among the sources. The spec describes it as reading the account's
  address-configured flag, a boolean.
\<close>

definition hasSetNonDefaultAddress :: "user \<Rightarrow> bool" where
  "hasSetNonDefaultAddress u = addressConfigured u"

text \<open>The part of \<open>config\<close> that the service reads; its value is a parameter.\<close>

record config =
  default_payment_option :: string

subsection \<open>The database\<close>

text \<open>
  A collection is the list of its documents. \<open>findOne\<close> returns the first document
  that matches the query, or \<open>null\<close>; \<open>create\<close> inserts a document; \<open>save\<close> writes a
  loaded document back in its place. A cart is identified by its \<open>email\<close>, the field
  every query of the service selects it by.
\<close>

record db =
  carts :: "cart list"
  products :: "product list"

definition Cart_findOne :: "db \<Rightarrow> string \<Rightarrow> cart option" where
  "Cart_findOne s e = find (\<lambda>c. email c = e) (carts s)"

text \<open>The product document with a given \<open>ObjectId\<close>.\<close>

definition Product_byId :: "db \<Rightarrow> string \<Rightarrow> product option" where
  "Product_byId s oid = find (\<lambda>p. product_id p = oid) (products s)"

text \<open>
  \<open>Product.findOne({ _id: productId })\<close> and \<open>Product.findById(productId)\<close> cast the
  request string before they search. The cast belongs to the database driver and
  is a parameter of the model: \<open>castObjectId v\<close> is the print of the \<open>ObjectId\<close> that
  the string \<open>v\<close> casts to, or \<open>None\<close> when the cast fails. \<open>Inl\<close> is the \<open>CastError\<close>.
\<close>

definition Product_findOne ::
  "(string \<Rightarrow> string option) \<Rightarrow> db \<Rightarrow> string \<Rightarrow> thrown + product option" where
  "Product_findOne castObjectId s productId =
     (case castObjectId productId of
        None \<Rightarrow> Inl CastError
      | Some oid \<Rightarrow> Inr (Product_byId s oid))"

definition Product_findById ::
  "(string \<Rightarrow> string option) \<Rightarrow> db \<Rightarrow> string \<Rightarrow> thrown + product option" where
  "Product_findById castObjectId s productId = Product_findOne castObjectId s productId"

text \<open>
  The cast on a string of 24 hexadecimal digits: the digits may be in upper or in
  lower case, and the print of the \<open>ObjectId\<close> has them in lower case. The examples
  use this cast, and give it strings of that form only. What the driver does with
  a string of another form depends on its version; \<open>hexObjectId\<close> refuses such a
  string, and the general theorems do not use \<open>hexObjectId\<close>: they hold for every
  cast.
\<close>

definition hexDigits :: string where
  "hexDigits = ''0123456789abcdefABCDEF''"

definition lowerHex :: "char \<Rightarrow> char" where
  "lowerHex ch =
     (if ch = CHR ''A'' then CHR ''a''
      else if ch = CHR ''B'' then CHR ''b''
      else if ch = CHR ''C'' then CHR ''c''
      else if ch = CHR ''D'' then CHR ''d''
      else if ch = CHR ''E'' then CHR ''e''
      else if ch = CHR ''F'' then CHR ''f''
      else ch)"

definition hexObjectId :: "string \<Rightarrow> string option" where
  "hexObjectId v =
     (if length v = 24 \<and> list_all (\<lambda>ch. ch \<in> set hexDigits) v
      then Some (map lowerHex v) else None)"

definition Cart_save :: "cart \<Rightarrow> db \<Rightarrow> db" where
  "Cart_save c s = s\<lparr>carts := map (\<lambda>d. if email d = email c then c else d) (carts s)\<rparr>"

text \<open>
  Whether \<open>Cart.create\<close> throws is decided by the database, not by the service: it
  is an input of the model. \<open>None\<close> is the exception; otherwise the created
  document is returned and the collection holds it.
\<close>

datatype create_outcome = CreateSucceeds | CreateThrows

definition Cart_create :: "create_outcome \<Rightarrow> cart \<Rightarrow> db \<Rightarrow> (cart option \<times> db) option" where
  "Cart_create co c s =
     (case co of
        CreateThrows \<Rightarrow> None
      | CreateSucceeds \<Rightarrow> Some (Some c, s\<lparr>carts := carts s @ [c]\<rparr>))"

subsection \<open>getCartByUser\<close>

definition getCartByUser :: "db \<Rightarrow> user \<Rightarrow> (thrown + cart) \<times> db" where
  "getCartByUser s u =
     (case Cart_findOne s (user_email u) of
        None \<Rightarrow> (Inl (ApiError NOT_FOUND ''User does not have a cart''), s)
      | Some cart \<Rightarrow> (Inr cart, s))"

subsection \<open>addProductToCart\<close>

text \<open>
  The loop that looks for the product in the cart, from index \<open>i\<close> on: it stops at
  the first match (\<open>break\<close>) and leaves \<open>-1\<close> when there is none.
\<close>

function addProductToCart_loop :: "cartItem list \<Rightarrow> string \<Rightarrow> nat \<Rightarrow> int" where
  "addProductToCart_loop items productId i =
     (if i < length items
      then (if productId = product_id (product (items ! i)) then int i
            else addProductToCart_loop items productId (i + 1))
      else - 1)"
  by pat_completeness auto
termination
  by (relation "measure (\<lambda>(items, productId, i). length items - i)") auto

declare addProductToCart_loop.simps [simp del]

text \<open>
  The first statements of \<open>addProductToCart\<close>: the lookup, and the creation in the
  \<open>try\<close> block when the lookup gave \<open>null\<close>. \<open>Inl\<close> is the error of the \<open>catch\<close>
  block.
\<close>

definition findOrCreateCart ::
  "config \<Rightarrow> create_outcome \<Rightarrow> db \<Rightarrow> user \<Rightarrow> thrown + (cart option \<times> db)" where
  "findOrCreateCart cfg co s u =
     (case Cart_findOne s (user_email u) of
        Some cart \<Rightarrow> Inr (Some cart, s)
      | None \<Rightarrow>
          (case Cart_create co
                  \<lparr>email = user_email u, cartItems = [],
                   paymentOption = default_payment_option cfg\<rparr> s of
             None \<Rightarrow> Inl (ApiError INTERNAL_SERVER_ERROR
                        ''User cart creation failed because user already have a cart'')
           | Some r \<Rightarrow> Inr r))"

definition addProductToCart ::
  "config \<Rightarrow> create_outcome \<Rightarrow> (string \<Rightarrow> string option) \<Rightarrow> db \<Rightarrow> user \<Rightarrow> string \<Rightarrow> int
     \<Rightarrow> (thrown + cart) \<times> db" where
  "addProductToCart cfg co castObjectId s u productId qty =
     (case findOrCreateCart cfg co s u of
        Inl e \<Rightarrow> (Inl e, s)
      | Inr (None, s1) \<Rightarrow>
          (Inl (ApiError INTERNAL_SERVER_ERROR ''User does not have a cart''), s1)
      | Inr (Some cart, s1) \<Rightarrow>
          (let productIndex = addProductToCart_loop (cartItems cart) productId 0 in
           if productIndex = - 1
           then (case Product_findOne castObjectId s1 productId of
                   Inl e \<Rightarrow> (Inl e, s1)
                 | Inr None \<Rightarrow>
                     (Inl (ApiError BAD_REQUEST ''Product doesn't exist in database''), s1)
                 | Inr (Some p) \<Rightarrow>
                     (let cart' = cart\<lparr>cartItems :=
                                     cartItems cart @ [\<lparr>product = p, quantity = qty\<rparr>]\<rparr>
                      in (Inr cart', Cart_save cart' s1)))
           else (Inl (ApiError BAD_REQUEST
                   ''Product already in cart. Use the cart sidebar to update or remove product from cart''),
                 s1)))"

subsection \<open>updateProductInCart and deleteProductFromCart\<close>

text \<open>
  Both functions look for the product with a loop that has no \<open>break\<close>: \<open>index\<close> ends
  as the last matching position, or stays \<open>-1\<close>.
\<close>

function lastIndex_loop :: "cartItem list \<Rightarrow> string \<Rightarrow> nat \<Rightarrow> int \<Rightarrow> int" where
  "lastIndex_loop items productId i index =
     (if i < length items
      then lastIndex_loop items productId (i + 1)
             (if productId = product_id (product (items ! i)) then int i else index)
      else index)"
  by pat_completeness auto
termination
  by (relation "measure (\<lambda>(items, productId, i, index). length items - i)") auto

declare lastIndex_loop.simps [simp del]

definition updateProductInCart ::
  "(string \<Rightarrow> string option) \<Rightarrow> db \<Rightarrow> user \<Rightarrow> string \<Rightarrow> int \<Rightarrow> (thrown + cart) \<times> db" where
  "updateProductInCart castObjectId s u productId qty =
     (case Cart_findOne s (user_email u) of
        None \<Rightarrow>
          (Inl (ApiError BAD_REQUEST
             ''User does not have a cart. Use POST to create cart and add a product''), s)
      | Some cart \<Rightarrow>
          (case Product_findById castObjectId s productId of
             Inl e \<Rightarrow> (Inl e, s)
           | Inr None \<Rightarrow>
               (Inl (ApiError BAD_REQUEST ''Product doesn't exist in database''), s)
           | Inr (Some p) \<Rightarrow>
               (let index = lastIndex_loop (cartItems cart) productId 0 (- 1) in
                if index = - 1
                then (Inl (ApiError BAD_REQUEST ''Product not in cart''), s)
                else
                  (let cart' = cart\<lparr>cartItems :=
                                 (cartItems cart)[nat index :=
                                    (cartItems cart ! nat index)\<lparr>quantity := qty\<rparr>]\<rparr>
                   in (Inr cart', Cart_save cart' s)))))"

text \<open>\<open>splice(index, 1)\<close> removes the element at \<open>index\<close>.\<close>

definition splice1 :: "'a list \<Rightarrow> nat \<Rightarrow> 'a list" where
  "splice1 xs i = take i xs @ drop (i + 1) xs"

definition deleteProductFromCart ::
  "db \<Rightarrow> user \<Rightarrow> string \<Rightarrow> (thrown + unit) \<times> db" where
  "deleteProductFromCart s u productId =
     (case Cart_findOne s (user_email u) of
        None \<Rightarrow> (Inl (ApiError BAD_REQUEST ''User does not have a cart''), s)
      | Some cart \<Rightarrow>
          (let index = lastIndex_loop (cartItems cart) productId 0 (- 1) in
           if index = - 1
           then (Inl (ApiError BAD_REQUEST ''Product not in cart''), s)
           else
             (let cart' = cart\<lparr>cartItems := splice1 (cartItems cart) (nat index)\<rparr>
              in (Inr (), Cart_save cart' s))))"

subsection \<open>checkout\<close>

text \<open>The loop that adds up \<open>cost * quantity\<close> over the cart items, from index \<open>i\<close> on.\<close>

function cartTotal_loop :: "cartItem list \<Rightarrow> nat \<Rightarrow> int \<Rightarrow> int" where
  "cartTotal_loop cartProductList i cartTotal =
     (if i < length cartProductList
      then cartTotal_loop cartProductList (i + 1)
             (cartTotal + cost (product (cartProductList ! i)) * quantity (cartProductList ! i))
      else cartTotal)"
  by pat_completeness auto
termination
  by (relation "measure (\<lambda>(cartProductList, i, cartTotal). length cartProductList - i)") auto

declare cartTotal_loop.simps [simp del]

text \<open>
  \<open>checkout\<close> returns nothing; it changes the user object it is given and the
  database. The result is the error or \<open>()\<close>, the user object after the call, and the
  database after the call. \<open>cartItems\<close> is an array, which is truthy also when empty,
  so the first guard tests the length alone. The user document lives in the user
  object that is returned: \<open>user.save()\<close> writes that object.
\<close>

definition checkout :: "db \<Rightarrow> user \<Rightarrow> (thrown + unit) \<times> user \<times> db" where
  "checkout s u =
     (case Cart_findOne s (user_email u) of
        None \<Rightarrow> (Inl (ApiError NOT_FOUND ''User does not have cart''), u, s)
      | Some userCart \<Rightarrow>
          if length (cartItems userCart) = 0
          then (Inl (ApiError BAD_REQUEST ''User does not have any Items in cart.''), u, s)
          else if \<not> hasSetNonDefaultAddress u
          then (Inl (ApiError BAD_REQUEST ''user need to add address''), u, s)
          else
            (let cartProductList = cartItems userCart in
             if length cartProductList = 0
             then (Inl (ApiError BAD_REQUEST ''Empty cart, add products to checkout''), u, s)
             else
               (let cartTotal = cartTotal_loop cartProductList 0 0 in
                if walletMoney u < cartTotal
                then (Inl (ApiError BAD_REQUEST ''Insufficient wallet balance''), u, s)
                else
                  (let u' = u\<lparr>walletMoney := walletMoney u - cartTotal\<rparr>;
                       userCart' = userCart\<lparr>cartItems := []\<rparr>
                   in (Inr (), u', Cart_save userCart' s)))))"

subsection \<open>The two persists of checkout, one after the other\<close>

text \<open>
  \<open>checkout\<close> ends with \<open>user.save()\<close> and \<open>userCart.save()\<close>: two writes of two
  documents, issued in this order, with no transaction around them. What is stored
  is the user document and the database. \<open>checkout_writes\<close> follows the function and
  collects the writes that a call issues, in the order of the program: none on any
  path that throws, the two saves on the path that returns.
\<close>

datatype persist = SaveUser user | SaveCart cart

fun apply_write :: "user \<times> db \<Rightarrow> persist \<Rightarrow> user \<times> db" where
  "apply_write (u, s) (SaveUser u') = (u', s)"
| "apply_write (u, s) (SaveCart c) = (u, Cart_save c s)"

definition checkout_writes :: "db \<Rightarrow> user \<Rightarrow> persist list" where
  "checkout_writes s u =
     (case Cart_findOne s (user_email u) of
        None \<Rightarrow> []
      | Some userCart \<Rightarrow>
          if length (cartItems userCart) = 0
          then []
          else if \<not> hasSetNonDefaultAddress u
          then []
          else
            (let cartProductList = cartItems userCart in
             if length cartProductList = 0
             then []
             else
               (let cartTotal = cartTotal_loop cartProductList 0 0 in
                if walletMoney u < cartTotal
                then []
                else
                  [SaveUser (u\<lparr>walletMoney := walletMoney u - cartTotal\<rparr>),
                   SaveCart (userCart\<lparr>cartItems := []\<rparr>)])))"


subsection \<open>Sequences of calls\<close>

text \<open>
  A cart is reachable when a sequence of calls of the four mutating functions
  produces it. Each call brings its own arguments, the user object among them; the
  database is handed from one call to the next, whether the call returned or threw.
\<close>

datatype operation =
    AddItem create_outcome user string int
  | UpdateItem user string int
  | DeleteItem user string
  | Checkout user

fun apply_operation ::
  "config \<Rightarrow> (string \<Rightarrow> string option) \<Rightarrow> db \<Rightarrow> operation \<Rightarrow> db" where
  "apply_operation cfg castObjectId s (AddItem co u productId qty) =
     snd (addProductToCart cfg co castObjectId s u productId qty)"
| "apply_operation cfg castObjectId s (UpdateItem u productId qty) =
     snd (updateProductInCart castObjectId s u productId qty)"
| "apply_operation cfg castObjectId s (DeleteItem u productId) =
     snd (deleteProductFromCart s u productId)"
| "apply_operation cfg castObjectId s (Checkout u) = snd (snd (checkout s u))"

fun run :: "config \<Rightarrow> (string \<Rightarrow> string option) \<Rightarrow> db \<Rightarrow> operation list \<Rightarrow> db" where
  "run cfg castObjectId s [] = s"
| "run cfg castObjectId s (x # xs) =
     run cfg castObjectId (apply_operation cfg castObjectId s x) xs"

text \<open>The two properties of a cart that the claims about reachable carts name.\<close>

definition unique_products :: "cart \<Rightarrow> bool" where
  "unique_products c = distinct (map (\<lambda>it. product_id (product it)) (cartItems c))"

definition positive_quantities :: "cart \<Rightarrow> bool" where
  "positive_quantities c = list_all (\<lambda>it. 0 < quantity it) (cartItems c)"

fun positive_operation :: "operation \<Rightarrow> bool" where
  "positive_operation (AddItem co u productId qty) = (0 < qty)"
| "positive_operation (UpdateItem u productId qty) = (0 < qty)"
| "positive_operation (DeleteItem u productId) = True"
| "positive_operation (Checkout u) = True"

subsection \<open>The total as the specification words it\<close>

text \<open>
  Not a function of the source. Section 4.5, step 4 of the specification asks for the
  total at the current price: each cart item's product is looked up again in the
  product collection and the cost found there is multiplied by the quantity. \<open>None\<close>
  when a product is no longer in the collection.
\<close>

fun catalog_cartTotal :: "db \<Rightarrow> cartItem list \<Rightarrow> int option" where
  "catalog_cartTotal s [] = Some 0"
| "catalog_cartTotal s (it # its) =
     (case Product_byId s (product_id (product it)) of
        None \<Rightarrow> None
      | Some p \<Rightarrow> map_option (\<lambda>t. cost p * quantity it + t) (catalog_cartTotal s its))"

section \<open>Properties\<close>

subsection \<open>The loops\<close>

lemma cartTotal_loop_eq:
  "cartTotal_loop xs i acc =
     acc + sum_list (map (\<lambda>it. cost (product it) * quantity it) (drop i xs))"
proof (induction xs i acc rule: cartTotal_loop.induct)
  case (1 xs i acc)
  show ?case
  proof (cases "i < length xs")
    case True
    then have "drop i xs = xs ! i # drop (Suc i) xs"
      by (simp add: Cons_nth_drop_Suc)
    with True "1" show ?thesis
      by (subst cartTotal_loop.simps) simp
  next
    case False
    then show ?thesis
      by (subst cartTotal_loop.simps) simp
  qed
qed

lemma cartTotal_loop_sum:
  "cartTotal_loop xs 0 0 = (\<Sum>it\<leftarrow>xs. cost (product it) * quantity it)"
  by (simp add: cartTotal_loop_eq)

lemma addProductToCart_loop_absent:
  "addProductToCart_loop items productId i = - 1 \<longleftrightarrow>
     productId \<notin> set (map (\<lambda>it. product_id (product it)) (drop i items))"
proof (induction items productId i rule: addProductToCart_loop.induct)
  case (1 items productId i)
  show ?case
  proof (cases "i < length items")
    case True
    then have d: "drop i items = items ! i # drop (Suc i) items"
      by (simp add: Cons_nth_drop_Suc)
    show ?thesis
    proof (cases "productId = product_id (product (items ! i))")
      case True
      with \<open>i < length items\<close> d show ?thesis
        by (subst addProductToCart_loop.simps) simp
    next
      case False
      with \<open>i < length items\<close> d "1" show ?thesis
        by (subst addProductToCart_loop.simps) simp
    qed
  next
    case False
    then show ?thesis
      by (subst addProductToCart_loop.simps) simp
  qed
qed

lemma lastIndex_loop_cases:
  "lastIndex_loop items productId i index = r \<Longrightarrow>
     (r = index \<and> productId \<notin> set (map (\<lambda>it. product_id (product it)) (drop i items)))
     \<or> (0 \<le> r \<and> i \<le> nat r \<and> nat r < length items
         \<and> productId = product_id (product (items ! nat r)))"
proof (induction items productId i index rule: lastIndex_loop.induct)
  case (1 items productId i index)
  show ?case
  proof (cases "i < length items")
    case True
    then have d: "drop i items = items ! i # drop (Suc i) items"
      by (simp add: Cons_nth_drop_Suc)
    from True "1.prems" have r:
      "lastIndex_loop items productId (i + 1)
         (if productId = product_id (product (items ! i)) then int i else index) = r"
      by (subst (asm) lastIndex_loop.simps) simp
    from "1.IH" [OF True r] True d show ?thesis
      by (auto split: if_splits)
  next
    case False
    with "1.prems" show ?thesis
      by (subst (asm) lastIndex_loop.simps) simp
  qed
qed

subsection \<open>Queries and saves\<close>

lemma find_email: "find (\<lambda>c. email c = e) xs = Some c \<Longrightarrow> email c = e"
  by (induction xs) (auto split: if_splits)

lemma find_save_same:
  "find (\<lambda>c. email c = e) xs = Some c \<Longrightarrow> email c' = e \<Longrightarrow>
   find (\<lambda>c. email c = e) (map (\<lambda>d. if email d = e then c' else d) xs) = Some c'"
  by (induction xs) (auto split: if_splits)

lemma Cart_findOne_email: "Cart_findOne s e = Some c \<Longrightarrow> email c = e"
  unfolding Cart_findOne_def by (rule find_email)

lemma Cart_findOne_save:
  "Cart_findOne s e = Some c \<Longrightarrow> email c' = e \<Longrightarrow>
   Cart_findOne (Cart_save c' s) e = Some c'"
  unfolding Cart_findOne_def Cart_save_def by (simp add: find_save_same)

lemma Cart_findOne_mem: "Cart_findOne s e = Some c \<Longrightarrow> c \<in> set (carts s)"
  unfolding Cart_findOne_def by (auto simp: find_Some_iff)

lemma Cart_save_all:
  "list_all P (carts s) \<Longrightarrow> P c \<Longrightarrow> list_all P (carts (Cart_save c s))"
  by (auto simp add: Cart_save_def list_all_iff)

lemma Cart_save_products:
  "Cart_save c (s\<lparr>products := ps\<rparr>) = (Cart_save c s)\<lparr>products := ps\<rparr>"
  by (simp add: Cart_save_def)

lemma Cart_findOne_products:
  "Cart_findOne (s\<lparr>products := ps\<rparr>) e = Cart_findOne s e"
  by (simp add: Cart_findOne_def)

lemma find_append_new:
  "find (\<lambda>c. email c = e) xs = None \<Longrightarrow> email c' = e \<Longrightarrow>
   find (\<lambda>c. email c = e) (xs @ [c']) = Some c'"
  by (induction xs) (auto split: if_splits)

text \<open>The equations that evaluate a call on concrete documents.\<close>

lemmas eval_defs =
  addProductToCart_def findOrCreateCart_def updateProductInCart_def deleteProductFromCart_def
  checkout_def Cart_findOne_def Product_findOne_def Product_findById_def Product_byId_def
  Cart_save_def Cart_create_def hasSetNonDefaultAddress_def splice1_def Let_def
  hexObjectId_def hexDigits_def lowerHex_def
  addProductToCart_loop.simps lastIndex_loop.simps cartTotal_loop.simps

subsection \<open>checkout: the successful call\<close>

lemma checkout_success:
  assumes "Cart_findOne s (user_email u) = Some c"
    and "cartItems c \<noteq> []"
    and "addressConfigured u"
    and "(\<Sum>it\<leftarrow>cartItems c. cost (product it) * quantity it) \<le> walletMoney u"
  shows "checkout s u =
           (Inr (),
            u\<lparr>walletMoney :=
                 walletMoney u - (\<Sum>it\<leftarrow>cartItems c. cost (product it) * quantity it)\<rparr>,
            Cart_save (c\<lparr>cartItems := []\<rparr>) s)"
  using assms
  by (simp add: checkout_def hasSetNonDefaultAddress_def cartTotal_loop_sum Let_def)

text \<open>
  C1. When the user's cart exists and has at least one cart item, the user's address
  flag is set and the wallet holds at least the cart total, \<open>checkout\<close> returns
  without an error; the wallet is then the old wallet minus the sum of
  \<open>cost * quantity\<close> over the cart items (the cost being that of the product
  document in the cart item), and the user's cart in the database has no cart items.
\<close>

theorem checkout_debits_and_clears:
  assumes "Cart_findOne s (user_email u) = Some c"
    and "cartItems c \<noteq> []"
    and "addressConfigured u"
    and "(\<Sum>it\<leftarrow>cartItems c. cost (product it) * quantity it) \<le> walletMoney u"
  shows "\<exists>u' s'. checkout s u = (Inr (), u', s')
           \<and> walletMoney u' =
               walletMoney u - (\<Sum>it\<leftarrow>cartItems c. cost (product it) * quantity it)
           \<and> Cart_findOne s' (user_email u) = Some (c\<lparr>cartItems := []\<rparr>)"
proof -
  from assms(1) have "email (c\<lparr>cartItems := []\<rparr>) = user_email u"
    by (simp add: Cart_findOne_email)
  with assms(1)
  have "Cart_findOne (Cart_save (c\<lparr>cartItems := []\<rparr>) s) (user_email u)
          = Some (c\<lparr>cartItems := []\<rparr>)"
    by (rule Cart_findOne_save)
  with checkout_success [OF assms] show ?thesis by simp
qed

text \<open>The example of the specification: two of A at 10, one of B at 5, a wallet of 100.\<close>

theorem checkout_debits_and_clears_witness:
  "\<exists>u' s'. checkout
      \<lparr>carts = [\<lparr>email = ''a@b.c'',
                 cartItems =
                   [\<lparr>product = \<lparr>product_id = ''productA'', cost = 10\<rparr>, quantity = 2\<rparr>,
                    \<lparr>product = \<lparr>product_id = ''productB'', cost = 5\<rparr>, quantity = 1\<rparr>],
                 paymentOption = ''PAYMENT_OPTION_DEFAULT''\<rparr>],
       products = [\<lparr>product_id = ''productA'', cost = 10\<rparr>,
                   \<lparr>product_id = ''productB'', cost = 5\<rparr>]\<rparr>
      \<lparr>user_email = ''a@b.c'', walletMoney = 100, addressConfigured = True\<rparr>
        = (Inr (), u', s')
    \<and> walletMoney u' = 75
    \<and> Cart_findOne s' ''a@b.c''
        = Some \<lparr>email = ''a@b.c'', cartItems = [],
                paymentOption = ''PAYMENT_OPTION_DEFAULT''\<rparr>"
  using checkout_debits_and_clears [of
      "\<lparr>carts = [\<lparr>email = ''a@b.c'',
                 cartItems =
                   [\<lparr>product = \<lparr>product_id = ''productA'', cost = 10\<rparr>, quantity = 2\<rparr>,
                    \<lparr>product = \<lparr>product_id = ''productB'', cost = 5\<rparr>, quantity = 1\<rparr>],
                 paymentOption = ''PAYMENT_OPTION_DEFAULT''\<rparr>],
       products = [\<lparr>product_id = ''productA'', cost = 10\<rparr>,
                   \<lparr>product_id = ''productB'', cost = 5\<rparr>]\<rparr>"
      "\<lparr>user_email = ''a@b.c'', walletMoney = 100, addressConfigured = True\<rparr>"
      "\<lparr>email = ''a@b.c'',
        cartItems =
          [\<lparr>product = \<lparr>product_id = ''productA'', cost = 10\<rparr>, quantity = 2\<rparr>,
           \<lparr>product = \<lparr>product_id = ''productB'', cost = 5\<rparr>, quantity = 1\<rparr>],
        paymentOption = ''PAYMENT_OPTION_DEFAULT''\<rparr>"]
  by (simp add: Cart_findOne_def)

subsection \<open>checkout: the rejected calls\<close>

text \<open>
  C3. With the user's cart in the database, \<open>checkout\<close> throws with status 400
  (\<open>BAD_REQUEST\<close>) when the cart has no cart items, when the address flag is unset, or
  when the wallet is smaller than the cart total; the user object and the database,
  the cart among them, are then what they were before the call.
\<close>

theorem checkout_rejects_unchanged:
  assumes "Cart_findOne s (user_email u) = Some c"
    and "cartItems c = [] \<or> \<not> addressConfigured u
         \<or> walletMoney u < (\<Sum>it\<leftarrow>cartItems c. cost (product it) * quantity it)"
  shows "\<exists>msg. checkout s u = (Inl (ApiError BAD_REQUEST msg), u, s)"
  using assms
  by (auto simp add: checkout_def hasSetNonDefaultAddress_def cartTotal_loop_sum Let_def)

text \<open>One call for each of the three cases.\<close>

theorem checkout_rejects_unchanged_witness:
  "checkout
      \<lparr>carts = [\<lparr>email = ''a@b.c'', cartItems = [], paymentOption = ''p''\<rparr>],
       products = []\<rparr>
      \<lparr>user_email = ''a@b.c'', walletMoney = 100, addressConfigured = True\<rparr>
    = (Inl (ApiError BAD_REQUEST ''User does not have any Items in cart.''),
       \<lparr>user_email = ''a@b.c'', walletMoney = 100, addressConfigured = True\<rparr>,
       \<lparr>carts = [\<lparr>email = ''a@b.c'', cartItems = [], paymentOption = ''p''\<rparr>],
        products = []\<rparr>)
   \<and> checkout
      \<lparr>carts = [\<lparr>email = ''a@b.c'',
                 cartItems =
                   [\<lparr>product = \<lparr>product_id = ''productA'', cost = 10\<rparr>, quantity = 2\<rparr>],
                 paymentOption = ''p''\<rparr>],
       products = []\<rparr>
      \<lparr>user_email = ''a@b.c'', walletMoney = 100, addressConfigured = False\<rparr>
    = (Inl (ApiError BAD_REQUEST ''user need to add address''),
       \<lparr>user_email = ''a@b.c'', walletMoney = 100, addressConfigured = False\<rparr>,
       \<lparr>carts = [\<lparr>email = ''a@b.c'',
                 cartItems =
                   [\<lparr>product = \<lparr>product_id = ''productA'', cost = 10\<rparr>, quantity = 2\<rparr>],
                 paymentOption = ''p''\<rparr>],
        products = []\<rparr>)
   \<and> checkout
      \<lparr>carts = [\<lparr>email = ''a@b.c'',
                 cartItems =
                   [\<lparr>product = \<lparr>product_id = ''productA'', cost = 10\<rparr>, quantity = 2\<rparr>],
                 paymentOption = ''p''\<rparr>],
       products = []\<rparr>
      \<lparr>user_email = ''a@b.c'', walletMoney = 19, addressConfigured = True\<rparr>
    = (Inl (ApiError BAD_REQUEST ''Insufficient wallet balance''),
       \<lparr>user_email = ''a@b.c'', walletMoney = 19, addressConfigured = True\<rparr>,
       \<lparr>carts = [\<lparr>email = ''a@b.c'',
                 cartItems =
                   [\<lparr>product = \<lparr>product_id = ''productA'', cost = 10\<rparr>, quantity = 2\<rparr>],
                 paymentOption = ''p''\<rparr>],
        products = []\<rparr>)"
proof -
  let ?c0 = "\<lparr>email = ''a@b.c'', cartItems = [], paymentOption = ''p''\<rparr>"
  let ?c1 = "\<lparr>email = ''a@b.c'',
              cartItems =
                [\<lparr>product = \<lparr>product_id = ''productA'', cost = 10\<rparr>, quantity = 2\<rparr>],
              paymentOption = ''p''\<rparr>"
  have a: "\<exists>msg. checkout \<lparr>carts = [?c0], products = []\<rparr>
             \<lparr>user_email = ''a@b.c'', walletMoney = 100, addressConfigured = True\<rparr>
           = (Inl (ApiError BAD_REQUEST msg),
              \<lparr>user_email = ''a@b.c'', walletMoney = 100, addressConfigured = True\<rparr>,
              \<lparr>carts = [?c0], products = []\<rparr>)"
    by (rule checkout_rejects_unchanged [where c = ?c0]) (simp_all add: Cart_findOne_def)
  have b: "\<exists>msg. checkout \<lparr>carts = [?c1], products = []\<rparr>
             \<lparr>user_email = ''a@b.c'', walletMoney = 100, addressConfigured = False\<rparr>
           = (Inl (ApiError BAD_REQUEST msg),
              \<lparr>user_email = ''a@b.c'', walletMoney = 100, addressConfigured = False\<rparr>,
              \<lparr>carts = [?c1], products = []\<rparr>)"
    by (rule checkout_rejects_unchanged [where c = ?c1]) (simp_all add: Cart_findOne_def)
  have c: "\<exists>msg. checkout \<lparr>carts = [?c1], products = []\<rparr>
             \<lparr>user_email = ''a@b.c'', walletMoney = 19, addressConfigured = True\<rparr>
           = (Inl (ApiError BAD_REQUEST msg),
              \<lparr>user_email = ''a@b.c'', walletMoney = 19, addressConfigured = True\<rparr>,
              \<lparr>carts = [?c1], products = []\<rparr>)"
    by (rule checkout_rejects_unchanged [where c = ?c1]) (simp_all add: Cart_findOne_def)
  from a b c show ?thesis
    by (simp add: checkout_def hasSetNonDefaultAddress_def cartTotal_loop_sum Cart_findOne_def)
qed

subsection \<open>checkout: where the prices come from\<close>

text \<open>
  C4 as it is stated does not hold. The product collection prices A at 20; the cart
  item holds the product document of the time it was added, priced at 10. The total
  at the current price is 20, and \<open>checkout\<close> takes 10 from the wallet.
\<close>

theorem checkout_price_counterexample:
  "catalog_cartTotal
      \<lparr>carts = [\<lparr>email = ''a@b.c'',
                 cartItems =
                   [\<lparr>product = \<lparr>product_id = ''productA'', cost = 10\<rparr>, quantity = 1\<rparr>],
                 paymentOption = ''p''\<rparr>],
       products = [\<lparr>product_id = ''productA'', cost = 20\<rparr>]\<rparr>
      [\<lparr>product = \<lparr>product_id = ''productA'', cost = 10\<rparr>, quantity = 1\<rparr>]
     = Some 20
   \<and> checkout
      \<lparr>carts = [\<lparr>email = ''a@b.c'',
                 cartItems =
                   [\<lparr>product = \<lparr>product_id = ''productA'', cost = 10\<rparr>, quantity = 1\<rparr>],
                 paymentOption = ''p''\<rparr>],
       products = [\<lparr>product_id = ''productA'', cost = 20\<rparr>]\<rparr>
      \<lparr>user_email = ''a@b.c'', walletMoney = 100, addressConfigured = True\<rparr>
     = (Inr (),
        \<lparr>user_email = ''a@b.c'', walletMoney = 90, addressConfigured = True\<rparr>,
        \<lparr>carts = [\<lparr>email = ''a@b.c'', cartItems = [], paymentOption = ''p''\<rparr>],
         products = [\<lparr>product_id = ''productA'', cost = 20\<rparr>]\<rparr>)"
  by (simp add: checkout_def hasSetNonDefaultAddress_def cartTotal_loop_sum Cart_findOne_def
        Product_byId_def Cart_save_def)

text \<open>
  C4, amended. The amount that a successful \<open>checkout\<close> takes from the wallet is the
  sum over the cart items of the cost of the product document held in the cart item
  times the quantity. The product collection is not read: with any other product
  collection the call returns the same result and leaves the same user and carts.
\<close>

theorem checkout_total_from_cart:
  assumes "Cart_findOne s (user_email u) = Some c"
    and "checkout s u = (Inr (), u', s')"
  shows "walletMoney u' =
           walletMoney u - (\<Sum>it\<leftarrow>cartItems c. cost (product it) * quantity it)
         \<and> checkout (s\<lparr>products := ps\<rparr>) u = (Inr (), u', s'\<lparr>products := ps\<rparr>)"
  using assms
  by (auto simp add: checkout_def Let_def cartTotal_loop_sum Cart_save_products
        Cart_findOne_products split: if_splits)

theorem checkout_total_from_cart_witness:
  "walletMoney \<lparr>user_email = ''a@b.c'', walletMoney = 90, addressConfigured = True\<rparr>
     = 100 - 10 * 1
   \<and> checkout
      \<lparr>carts = [\<lparr>email = ''a@b.c'',
                 cartItems =
                   [\<lparr>product = \<lparr>product_id = ''productA'', cost = 10\<rparr>, quantity = 1\<rparr>],
                 paymentOption = ''p''\<rparr>],
       products = []\<rparr>
      \<lparr>user_email = ''a@b.c'', walletMoney = 100, addressConfigured = True\<rparr>
     = (Inr (),
        \<lparr>user_email = ''a@b.c'', walletMoney = 90, addressConfigured = True\<rparr>,
        \<lparr>carts = [\<lparr>email = ''a@b.c'', cartItems = [], paymentOption = ''p''\<rparr>],
         products = []\<rparr>)"
proof -
  let ?c = "\<lparr>email = ''a@b.c'',
             cartItems =
               [\<lparr>product = \<lparr>product_id = ''productA'', cost = 10\<rparr>, quantity = 1\<rparr>],
             paymentOption = ''p''\<rparr>"
  let ?s = "\<lparr>carts = [?c], products = [\<lparr>product_id = ''productA'', cost = 20\<rparr>]\<rparr>"
  let ?u = "\<lparr>user_email = ''a@b.c'', walletMoney = 100, addressConfigured = True\<rparr>"
  let ?u' = "\<lparr>user_email = ''a@b.c'', walletMoney = 90, addressConfigured = True\<rparr>"
  let ?s' = "\<lparr>carts = [\<lparr>email = ''a@b.c'', cartItems = [], paymentOption = ''p''\<rparr>],
              products = [\<lparr>product_id = ''productA'', cost = 20\<rparr>]\<rparr>"
  have 1: "Cart_findOne ?s (user_email ?u) = Some ?c"
    by (simp add: Cart_findOne_def)
  have 2: "checkout ?s ?u = (Inr (), ?u', ?s')"
    by (simp add: checkout_def hasSetNonDefaultAddress_def cartTotal_loop_sum
          Cart_findOne_def Cart_save_def)
  from checkout_total_from_cart [OF 1 2, of "[]"] show ?thesis
    by simp
qed

subsection \<open>checkout: the wallet stays non-negative\<close>

text \<open>
  C8. A wallet that is not negative before a call of \<open>checkout\<close> is not negative
  after it, whether the call returned or threw: the amount taken is at most the
  wallet.
\<close>

theorem checkout_wallet_nonnegative:
  assumes "0 \<le> walletMoney u"
  shows "0 \<le> walletMoney (fst (snd (checkout s u)))"
  using assms
  by (simp add: checkout_def Let_def split: option.splits)

theorem checkout_wallet_nonnegative_witness:
  "0 \<le> walletMoney (fst (snd (checkout
      \<lparr>carts = [\<lparr>email = ''a@b.c'',
                 cartItems =
                   [\<lparr>product = \<lparr>product_id = ''productA'', cost = 10\<rparr>, quantity = 2\<rparr>],
                 paymentOption = ''p''\<rparr>],
       products = []\<rparr>
      \<lparr>user_email = ''a@b.c'', walletMoney = 20, addressConfigured = True\<rparr>)))
   \<and> walletMoney (fst (snd (checkout
      \<lparr>carts = [\<lparr>email = ''a@b.c'',
                 cartItems =
                   [\<lparr>product = \<lparr>product_id = ''productA'', cost = 10\<rparr>, quantity = 2\<rparr>],
                 paymentOption = ''p''\<rparr>],
       products = []\<rparr>
      \<lparr>user_email = ''a@b.c'', walletMoney = 20, addressConfigured = True\<rparr>))) = 0"
  using checkout_wallet_nonnegative [of
     "\<lparr>user_email = ''a@b.c'', walletMoney = 20, addressConfigured = True\<rparr>"
     "\<lparr>carts = [\<lparr>email = ''a@b.c'',
                cartItems =
                  [\<lparr>product = \<lparr>product_id = ''productA'', cost = 10\<rparr>, quantity = 2\<rparr>],
                paymentOption = ''p''\<rparr>],
       products = []\<rparr>"]
  by (simp add: checkout_def hasSetNonDefaultAddress_def cartTotal_loop_sum Cart_findOne_def)

subsection \<open>checkout: the second test for an empty cart\<close>

text \<open>
  C10. When the user's cart has no cart items, \<open>checkout\<close> throws at its first test,
  with the message "User does not have any Items in cart."; and no call of
  \<open>checkout\<close>, whatever the database and the user, throws the error of the second
  test, "Empty cart, add products to checkout".
\<close>

theorem checkout_second_guard_dead:
  assumes "Cart_findOne s (user_email u) = Some c" and "cartItems c = []"
  shows "checkout s u =
           (Inl (ApiError BAD_REQUEST ''User does not have any Items in cart.''), u, s)
         \<and> (\<forall>s' u' st. fst (checkout s' u')
                \<noteq> Inl (ApiError st ''Empty cart, add products to checkout''))"
proof
  from assms
  show "checkout s u =
          (Inl (ApiError BAD_REQUEST ''User does not have any Items in cart.''), u, s)"
    by (simp add: checkout_def)
  show "\<forall>s' u' st. fst (checkout s' u')
          \<noteq> Inl (ApiError st ''Empty cart, add products to checkout'')"
    by (simp add: checkout_def Let_def split: option.splits)
qed

theorem checkout_second_guard_dead_witness:
  "checkout
      \<lparr>carts = [\<lparr>email = ''a@b.c'', cartItems = [], paymentOption = ''p''\<rparr>],
       products = []\<rparr>
      \<lparr>user_email = ''a@b.c'', walletMoney = 100, addressConfigured = True\<rparr>
    = (Inl (ApiError BAD_REQUEST ''User does not have any Items in cart.''),
       \<lparr>user_email = ''a@b.c'', walletMoney = 100, addressConfigured = True\<rparr>,
       \<lparr>carts = [\<lparr>email = ''a@b.c'', cartItems = [], paymentOption = ''p''\<rparr>],
        products = []\<rparr>)
   \<and> fst (checkout
      \<lparr>carts = [\<lparr>email = ''a@b.c'', cartItems = [], paymentOption = ''p''\<rparr>],
       products = []\<rparr>
      \<lparr>user_email = ''a@b.c'', walletMoney = 100, addressConfigured = False\<rparr>)
    \<noteq> Inl (ApiError BAD_REQUEST ''Empty cart, add products to checkout'')"
proof -
  let ?c = "\<lparr>email = ''a@b.c'', cartItems = [], paymentOption = ''p''\<rparr>"
  let ?s = "\<lparr>carts = [?c], products = []\<rparr>"
  let ?u = "\<lparr>user_email = ''a@b.c'', walletMoney = 100, addressConfigured = True\<rparr>"
  have 1: "Cart_findOne ?s (user_email ?u) = Some ?c"
    by (simp add: Cart_findOne_def)
  have 2: "cartItems ?c = []"
    by simp
  from checkout_second_guard_dead [OF 1 2] show ?thesis
    by blast
qed

subsection \<open>checkout: what is stored between the two persists\<close>

lemma checkout_replays_writes:
  "snd (checkout s u) = foldl apply_write (u, s) (checkout_writes s u)"
  by (simp add: checkout_def checkout_writes_def Let_def split: option.splits)



subsection \<open>addProductToCart: creating the cart\<close>

lemma addProductToCart_loop_Nil: "addProductToCart_loop [] productId 0 = - 1"
  by (simp add: addProductToCart_loop_absent)

text \<open>
  C5 as it is stated does not hold. The user has no cart and \<open>Cart.create\<close> throws:
  the call throws with status 500 (\<open>INTERNAL_SERVER_ERROR\<close>), which is not \<open>CONFLICT\<close>.
\<close>

theorem addProductToCart_creation_failure_counterexample:
  "addProductToCart \<lparr>default_payment_option = ''PAYMENT_OPTION_DEFAULT''\<rparr> CreateThrows
      hexObjectId
      \<lparr>carts = [], products = [\<lparr>product_id = ''5f71c1ca04c69a5874e9fd45'', cost = 10\<rparr>]\<rparr>
      \<lparr>user_email = ''a@b.c'', walletMoney = 100, addressConfigured = True\<rparr> ''5f71c1ca04c69a5874e9fd45'' 1
     = (Inl (ApiError INTERNAL_SERVER_ERROR
               ''User cart creation failed because user already have a cart''),
        \<lparr>carts = [], products = [\<lparr>product_id = ''5f71c1ca04c69a5874e9fd45'', cost = 10\<rparr>]\<rparr>)
   \<and> statusCode (ApiError INTERNAL_SERVER_ERROR
               ''User cart creation failed because user already have a cart'') \<noteq> CONFLICT"
  by (simp add: addProductToCart_def findOrCreateCart_def Cart_findOne_def Cart_create_def)

text \<open>
  C5, amended. When the user has no cart, \<open>addProductToCart\<close> creates one with the
  user's email, no cart items and the default payment option: after a call in which
  the creation succeeds, the user's cart in the database is that cart, with the new
  cart item in it when the product query finds the product. When the creation
  throws, the call throws with status 500 (\<open>INTERNAL_SERVER_ERROR\<close>) and the message
  "User cart creation failed because user already have a cart", and the database is
  unchanged.
\<close>

theorem addProductToCart_creates_cart:
  assumes "Cart_findOne s (user_email u) = None"
  shows "addProductToCart cfg CreateThrows castObjectId s u productId qty
           = (Inl (ApiError INTERNAL_SERVER_ERROR
                     ''User cart creation failed because user already have a cart''), s)
         \<and> Cart_findOne
              (snd (addProductToCart cfg CreateSucceeds castObjectId s u productId qty))
              (user_email u)
           = Some \<lparr>email = user_email u,
                   cartItems = (case Product_findOne castObjectId s productId of
                                  Inl e \<Rightarrow> []
                                | Inr None \<Rightarrow> []
                                | Inr (Some p) \<Rightarrow> [\<lparr>product = p, quantity = qty\<rparr>]),
                   paymentOption = default_payment_option cfg\<rparr>"
proof
  from assms show "addProductToCart cfg CreateThrows castObjectId s u productId qty
           = (Inl (ApiError INTERNAL_SERVER_ERROR
                     ''User cart creation failed because user already have a cart''), s)"
    by (simp add: addProductToCart_def findOrCreateCart_def Cart_create_def)
next
  let ?c = "\<lparr>email = user_email u, cartItems = [],
             paymentOption = default_payment_option cfg\<rparr>"
  let ?s1 = "s\<lparr>carts := carts s @ [?c]\<rparr>"
  from assms have fc: "findOrCreateCart cfg CreateSucceeds s u = Inr (Some ?c, ?s1)"
    by (simp add: findOrCreateCart_def Cart_create_def)
  from assms have f1: "Cart_findOne ?s1 (user_email u) = Some ?c"
    by (simp add: Cart_findOne_def find_append_new)
  have p1: "Product_findOne castObjectId ?s1 productId
              = Product_findOne castObjectId s productId"
    by (simp add: Product_findOne_def Product_byId_def split: option.splits)
  show "Cart_findOne
          (snd (addProductToCart cfg CreateSucceeds castObjectId s u productId qty))
          (user_email u)
        = Some \<lparr>email = user_email u,
                cartItems = (case Product_findOne castObjectId s productId of
                               Inl e \<Rightarrow> []
                             | Inr None \<Rightarrow> []
                             | Inr (Some p) \<Rightarrow> [\<lparr>product = p, quantity = qty\<rparr>]),
                paymentOption = default_payment_option cfg\<rparr>"
  proof (cases "Product_findOne castObjectId s productId")
    case (Inl e)
    with fc f1 p1 show ?thesis
      by (simp add: addProductToCart_def addProductToCart_loop_Nil)
  next
    case (Inr r)
    show ?thesis
    proof (cases r)
      case None
      with Inr fc f1 p1 show ?thesis
        by (simp add: addProductToCart_def addProductToCart_loop_Nil)
    next
      case (Some p)
      with Inr fc p1
        Cart_findOne_save [OF f1, of "?c\<lparr>cartItems := [\<lparr>product = p, quantity = qty\<rparr>]\<rparr>"]
      show ?thesis
        by (simp add: addProductToCart_def addProductToCart_loop_Nil Let_def)
    qed
  qed
qed

theorem addProductToCart_creates_cart_witness:
  "addProductToCart \<lparr>default_payment_option = ''PAYMENT_OPTION_DEFAULT''\<rparr> CreateThrows
      hexObjectId
      \<lparr>carts = [], products = [\<lparr>product_id = ''5f71c1ca04c69a5874e9fd45'', cost = 10\<rparr>]\<rparr>
      \<lparr>user_email = ''a@b.c'', walletMoney = 100, addressConfigured = True\<rparr> ''5f71c1ca04c69a5874e9fd45'' 1
     = (Inl (ApiError INTERNAL_SERVER_ERROR
               ''User cart creation failed because user already have a cart''),
        \<lparr>carts = [], products = [\<lparr>product_id = ''5f71c1ca04c69a5874e9fd45'', cost = 10\<rparr>]\<rparr>)
   \<and> Cart_findOne
        (snd (addProductToCart \<lparr>default_payment_option = ''PAYMENT_OPTION_DEFAULT''\<rparr>
           CreateSucceeds hexObjectId
           \<lparr>carts = [], products = [\<lparr>product_id = ''5f71c1ca04c69a5874e9fd45'', cost = 10\<rparr>]\<rparr>
           \<lparr>user_email = ''a@b.c'', walletMoney = 100, addressConfigured = True\<rparr>
           ''5f71c1ca04c69a5874e9fd46'' 1))
        ''a@b.c''
     = Some \<lparr>email = ''a@b.c'', cartItems = [],
             paymentOption = ''PAYMENT_OPTION_DEFAULT''\<rparr>
   \<and> Cart_findOne
        (snd (addProductToCart \<lparr>default_payment_option = ''PAYMENT_OPTION_DEFAULT''\<rparr>
           CreateSucceeds hexObjectId
           \<lparr>carts = [], products = [\<lparr>product_id = ''5f71c1ca04c69a5874e9fd45'', cost = 10\<rparr>]\<rparr>
           \<lparr>user_email = ''a@b.c'', walletMoney = 100, addressConfigured = True\<rparr>
           ''5f71c1ca04c69a5874e9fd45'' 1))
        ''a@b.c''
     = Some \<lparr>email = ''a@b.c'',
             cartItems = [\<lparr>product = \<lparr>product_id = ''5f71c1ca04c69a5874e9fd45'', cost = 10\<rparr>, quantity = 1\<rparr>],
             paymentOption = ''PAYMENT_OPTION_DEFAULT''\<rparr>"
proof -
  let ?cfg = "\<lparr>default_payment_option = ''PAYMENT_OPTION_DEFAULT''\<rparr>"
  let ?s = "\<lparr>carts = [], products = [\<lparr>product_id = ''5f71c1ca04c69a5874e9fd45'', cost = 10\<rparr>]\<rparr>"
  let ?u = "\<lparr>user_email = ''a@b.c'', walletMoney = 100, addressConfigured = True\<rparr>"
  have 1: "Cart_findOne ?s (user_email ?u) = None"
    by (simp add: Cart_findOne_def)
  have a: "Product_findOne hexObjectId ?s ''5f71c1ca04c69a5874e9fd45''
             = Inr (Some \<lparr>product_id = ''5f71c1ca04c69a5874e9fd45'', cost = 10\<rparr>)"
    by (simp add: Product_findOne_def Product_byId_def hexObjectId_def hexDigits_def
          lowerHex_def)
  have b: "Product_findOne hexObjectId ?s ''5f71c1ca04c69a5874e9fd46'' = Inr None"
    by (simp add: Product_findOne_def Product_byId_def hexObjectId_def hexDigits_def
          lowerHex_def)
  from addProductToCart_creates_cart [OF 1, of ?cfg hexObjectId "''5f71c1ca04c69a5874e9fd45''" 1]
    addProductToCart_creates_cart [OF 1, of ?cfg hexObjectId "''5f71c1ca04c69a5874e9fd46''" 1]
  show ?thesis
    by (simp only: a b) simp
qed


subsection \<open>updateProductInCart: one quantity changes\<close>




subsection \<open>addProductToCart: the same product under another spelling\<close>

text \<open>
  C7. The invariant (no cart with two cart items of the same product) and the
  rejection of a product that is already in the cart are what the function is
  written for: its loop looks for the product and the call throws "Product already
  in cart" when it finds it. The loop compares the request string with the print of
  the stored identifier, while the query that follows casts the request string. For
  a request string that casts to a stored identifier without being its print, here
  the same 24 digits in upper case, the loop finds nothing, the query finds the
  product, and the call appends a second cart item for the product. The theorem
  runs two calls from a database without carts: the cart reached has the product
  twice, and the second call returned this cart instead of throwing.
\<close>

theorem addProductToCart_second_line_for_same_product:
  "carts (run \<lparr>default_payment_option = ''PAYMENT_OPTION_DEFAULT''\<rparr> hexObjectId
        \<lparr>carts = [], products = [\<lparr>product_id = ''5f71c1ca04c69a5874e9fd45'', cost = 10\<rparr>]\<rparr>
        [AddItem CreateSucceeds
           \<lparr>user_email = ''a@b.c'', walletMoney = 100, addressConfigured = True\<rparr>
           ''5f71c1ca04c69a5874e9fd45'' 2,
         AddItem CreateSucceeds
           \<lparr>user_email = ''a@b.c'', walletMoney = 100, addressConfigured = True\<rparr>
           ''5F71C1CA04C69A5874E9FD45'' 3])
   = [\<lparr>email = ''a@b.c'',
       cartItems =
         [\<lparr>product = \<lparr>product_id = ''5f71c1ca04c69a5874e9fd45'', cost = 10\<rparr>, quantity = 2\<rparr>,
          \<lparr>product = \<lparr>product_id = ''5f71c1ca04c69a5874e9fd45'', cost = 10\<rparr>, quantity = 3\<rparr>],
       paymentOption = ''PAYMENT_OPTION_DEFAULT''\<rparr>]
   \<and> \<not> unique_products
       \<lparr>email = ''a@b.c'',
        cartItems =
          [\<lparr>product = \<lparr>product_id = ''5f71c1ca04c69a5874e9fd45'', cost = 10\<rparr>, quantity = 2\<rparr>,
           \<lparr>product = \<lparr>product_id = ''5f71c1ca04c69a5874e9fd45'', cost = 10\<rparr>, quantity = 3\<rparr>],
        paymentOption = ''PAYMENT_OPTION_DEFAULT''\<rparr>
   \<and> fst (addProductToCart \<lparr>default_payment_option = ''PAYMENT_OPTION_DEFAULT''\<rparr>
         CreateSucceeds hexObjectId
         \<lparr>carts = [\<lparr>email = ''a@b.c'',
                    cartItems =
                      [\<lparr>product = \<lparr>product_id = ''5f71c1ca04c69a5874e9fd45'', cost = 10\<rparr>, quantity = 2\<rparr>],
                    paymentOption = ''PAYMENT_OPTION_DEFAULT''\<rparr>],
          products = [\<lparr>product_id = ''5f71c1ca04c69a5874e9fd45'', cost = 10\<rparr>]\<rparr>
         \<lparr>user_email = ''a@b.c'', walletMoney = 100, addressConfigured = True\<rparr>
         ''5F71C1CA04C69A5874E9FD45'' 3)
     = Inr \<lparr>email = ''a@b.c'',
            cartItems =
              [\<lparr>product = \<lparr>product_id = ''5f71c1ca04c69a5874e9fd45'', cost = 10\<rparr>, quantity = 2\<rparr>,
               \<lparr>product = \<lparr>product_id = ''5f71c1ca04c69a5874e9fd45'', cost = 10\<rparr>, quantity = 3\<rparr>],
            paymentOption = ''PAYMENT_OPTION_DEFAULT''\<rparr>"
  by (simp add: eval_defs unique_products_def)

subsection \<open>What a call does to the carts of the database\<close>

text \<open>
  A property \<open>P\<close> of all carts of the database is kept by a call when the new cart
  items that the call can write keep it.
\<close>

lemma findOrCreateCart_all:
  assumes "list_all P (carts s)"
    and "P \<lparr>email = user_email u, cartItems = [], paymentOption = default_payment_option cfg\<rparr>"
    and "findOrCreateCart cfg co s u = Inr (oc, s1)"
  shows "list_all P (carts s1) \<and> (case oc of None \<Rightarrow> True | Some c \<Rightarrow> P c)"
  using assms
  by (auto simp add: findOrCreateCart_def Cart_create_def list_all_iff
        dest: Cart_findOne_mem split: option.splits create_outcome.splits)

lemma addProductToCart_all:
  assumes inv: "list_all P (carts s)"
    and empty: "P \<lparr>email = user_email u, cartItems = [],
                   paymentOption = default_payment_option cfg\<rparr>"
    and step: "\<And>c p. P c
                 \<Longrightarrow> P (c\<lparr>cartItems := cartItems c @ [\<lparr>product = p, quantity = qty\<rparr>]\<rparr>)"
  shows "list_all P (carts (snd (addProductToCart cfg co castObjectId s u productId qty)))"
proof (cases "findOrCreateCart cfg co s u")
  case (Inl e)
  with inv show ?thesis by (simp add: addProductToCart_def)
next
  case (Inr r)
  obtain oc s1 where r: "r = (oc, s1)" by (cases r)
  from findOrCreateCart_all [OF inv empty Inr [unfolded r]]
  have s1: "list_all P (carts s1)" and oc: "case oc of None \<Rightarrow> True | Some c \<Rightarrow> P c"
    by simp_all
  show ?thesis
  proof (cases oc)
    case None
    with Inr r s1 show ?thesis by (simp add: addProductToCart_def)
  next
    case (Some c)
    with oc have Pc: "P c" by simp
    show ?thesis
    proof (cases "addProductToCart_loop (cartItems c) productId 0 = - 1")
      case False
      with Inr r s1 Some show ?thesis by (simp add: addProductToCart_def)
    next
      case True
      show ?thesis
      proof (cases "Product_findOne castObjectId s1 productId")
        case (Inl e)
        with Inr r s1 Some True show ?thesis by (simp add: addProductToCart_def)
      next
        case found: (Inr q)
        show ?thesis
        proof (cases q)
          case None
          with found Inr r s1 Some True show ?thesis by (simp add: addProductToCart_def)
        next
          case p: (Some p)
          from step [OF Pc] s1
          have "list_all P (carts (Cart_save
                  (c\<lparr>cartItems := cartItems c @ [\<lparr>product = p, quantity = qty\<rparr>]\<rparr>) s1))"
            by (simp add: Cart_save_all)
          with found p Inr r Some True show ?thesis
            by (simp add: addProductToCart_def Let_def)
        qed
      qed
    qed
  qed
qed

lemma updateProductInCart_all:
  assumes inv: "list_all P (carts s)"
    and step: "\<And>c i. P c \<Longrightarrow> i < length (cartItems c)
                 \<Longrightarrow> P (c\<lparr>cartItems := (cartItems c)[i := (cartItems c ! i)\<lparr>quantity := qty\<rparr>]\<rparr>)"
  shows "list_all P (carts (snd (updateProductInCart castObjectId s u productId qty)))"
proof (cases "Cart_findOne s (user_email u)")
  case None
  with inv show ?thesis by (simp add: updateProductInCart_def)
next
  case (Some c)
  with inv have Pc: "P c" by (auto simp: list_all_iff dest: Cart_findOne_mem)
  show ?thesis
  proof (cases "Product_findById castObjectId s productId")
    case (Inl e)
    with Some inv show ?thesis by (simp add: updateProductInCart_def)
  next
    case found: (Inr q)
    show ?thesis
    proof (cases q)
      case None
      with found Some inv show ?thesis by (simp add: updateProductInCart_def)
    next
      case p: (Some p)
      let ?r = "lastIndex_loop (cartItems c) productId 0 (- 1)"
      show ?thesis
      proof (cases "?r = - 1")
        case True
        with found Some p inv show ?thesis by (simp add: updateProductInCart_def)
      next
        case False
        with lastIndex_loop_cases [OF refl, of "cartItems c" productId 0 "- 1"]
        have "nat ?r < length (cartItems c)" by auto
        from step [OF Pc this] inv
        have "list_all P (carts (Cart_save
                (c\<lparr>cartItems :=
                     (cartItems c)[nat ?r := (cartItems c ! nat ?r)\<lparr>quantity := qty\<rparr>]\<rparr>) s))"
          by (simp add: Cart_save_all)
        with found Some p False show ?thesis
          by (simp add: updateProductInCart_def Let_def)
      qed
    qed
  qed
qed

lemma deleteProductFromCart_all:
  assumes inv: "list_all P (carts s)"
    and step: "\<And>c i. P c \<Longrightarrow> i < length (cartItems c)
                 \<Longrightarrow> P (c\<lparr>cartItems := splice1 (cartItems c) i\<rparr>)"
  shows "list_all P (carts (snd (deleteProductFromCart s u productId)))"
proof (cases "Cart_findOne s (user_email u)")
  case None
  with inv show ?thesis by (simp add: deleteProductFromCart_def)
next
  case (Some c)
  with inv have Pc: "P c" by (auto simp: list_all_iff dest: Cart_findOne_mem)
  let ?r = "lastIndex_loop (cartItems c) productId 0 (- 1)"
  show ?thesis
  proof (cases "?r = - 1")
    case True
    with Some inv show ?thesis by (simp add: deleteProductFromCart_def)
  next
    case False
    with lastIndex_loop_cases [OF refl, of "cartItems c" productId 0 "- 1"]
    have "nat ?r < length (cartItems c)" by auto
    from step [OF Pc this] inv
    have "list_all P (carts (Cart_save (c\<lparr>cartItems := splice1 (cartItems c) (nat ?r)\<rparr>) s))"
      by (simp add: Cart_save_all)
    with Some False show ?thesis
      by (simp add: deleteProductFromCart_def Let_def)
  qed
qed

lemma checkout_all:
  assumes inv: "list_all P (carts s)"
    and step: "\<And>c. P c \<Longrightarrow> P (c\<lparr>cartItems := []\<rparr>)"
  shows "list_all P (carts (snd (snd (checkout s u))))"
proof (cases "Cart_findOne s (user_email u)")
  case None
  with inv show ?thesis by (simp add: checkout_def)
next
  case (Some c)
  with inv have "P c" by (auto simp: list_all_iff dest: Cart_findOne_mem)
  from step [OF this] inv have "list_all P (carts (Cart_save (c\<lparr>cartItems := []\<rparr>) s))"
    by (simp add: Cart_save_all)
  with Some inv show ?thesis
    by (simp add: checkout_def Let_def)
qed

subsection \<open>Quantities\<close>

text \<open>
  C9 as it is stated does not hold. Neither function tests the quantity:
  \<open>addProductToCart\<close> with quantity 0 stores a cart item of quantity 0, and
  \<open>updateProductInCart\<close> with quantity -3 sets a quantity to -3.
\<close>

theorem quantity_not_checked_counterexample:
  "carts (run \<lparr>default_payment_option = ''PAYMENT_OPTION_DEFAULT''\<rparr> hexObjectId
        \<lparr>carts = [], products = [\<lparr>product_id = ''5f71c1ca04c69a5874e9fd45'', cost = 10\<rparr>,
                                 \<lparr>product_id = ''5f71c1ca04c69a5874e9fd46'', cost = 5\<rparr>]\<rparr>
        [AddItem CreateSucceeds
           \<lparr>user_email = ''a@b.c'', walletMoney = 100, addressConfigured = True\<rparr> ''5f71c1ca04c69a5874e9fd45'' 0,
         AddItem CreateSucceeds
           \<lparr>user_email = ''a@b.c'', walletMoney = 100, addressConfigured = True\<rparr> ''5f71c1ca04c69a5874e9fd46'' 1,
         UpdateItem
           \<lparr>user_email = ''a@b.c'', walletMoney = 100, addressConfigured = True\<rparr> ''5f71c1ca04c69a5874e9fd46'' (- 3)])
   = [\<lparr>email = ''a@b.c'',
       cartItems = [\<lparr>product = \<lparr>product_id = ''5f71c1ca04c69a5874e9fd45'', cost = 10\<rparr>, quantity = 0\<rparr>,
                    \<lparr>product = \<lparr>product_id = ''5f71c1ca04c69a5874e9fd46'', cost = 5\<rparr>, quantity = - 3\<rparr>],
       paymentOption = ''PAYMENT_OPTION_DEFAULT''\<rparr>]"
  by (simp add: eval_defs)

lemma positive_quantities_update:
  "0 < qty \<Longrightarrow> positive_quantities c \<Longrightarrow> i < length (cartItems c) \<Longrightarrow>
   positive_quantities (c\<lparr>cartItems := (cartItems c)[i := (cartItems c ! i)\<lparr>quantity := qty\<rparr>]\<rparr>)"
  by (auto simp add: positive_quantities_def list_all_iff dest!: set_update_subset_insert [THEN subsetD])

lemma positive_quantities_splice1:
  "positive_quantities c \<Longrightarrow> positive_quantities (c\<lparr>cartItems := splice1 (cartItems c) i\<rparr>)"
  by (auto simp add: positive_quantities_def list_all_iff splice1_def
        dest: in_set_takeD in_set_dropD)

lemma apply_operation_positive:
  "positive_operation x \<Longrightarrow> list_all positive_quantities (carts s) \<Longrightarrow>
   list_all positive_quantities (carts (apply_operation cfg castObjectId s x))"
proof (cases x)
  case (AddItem co u productId qty)
  assume "positive_operation x" "list_all positive_quantities (carts s)"
  with AddItem have "0 < qty" "list_all positive_quantities (carts s)" by simp_all
  then have "list_all positive_quantities (carts (snd (addProductToCart cfg co castObjectId s u productId qty)))"
    by (intro addProductToCart_all) (auto simp: positive_quantities_def)
  with AddItem show ?thesis by simp
next
  case (UpdateItem u productId qty)
  assume "positive_operation x" "list_all positive_quantities (carts s)"
  with UpdateItem have "0 < qty" "list_all positive_quantities (carts s)" by simp_all
  then have "list_all positive_quantities (carts (snd (updateProductInCart castObjectId s u productId qty)))"
    by (intro updateProductInCart_all) (simp_all add: positive_quantities_update)
  with UpdateItem show ?thesis by simp
next
  case (DeleteItem u productId)
  assume "list_all positive_quantities (carts s)"
  then have "list_all positive_quantities (carts (snd (deleteProductFromCart s u productId)))"
    by (rule deleteProductFromCart_all) (simp add: positive_quantities_splice1)
  with DeleteItem show ?thesis by simp
next
  case (Checkout u)
  assume "list_all positive_quantities (carts s)"
  then have "list_all positive_quantities (carts (snd (snd (checkout s u))))"
    by (rule checkout_all) (simp add: positive_quantities_def)
  with Checkout show ?thesis by simp
qed

text \<open>
  C9, amended. Starting from a database without carts, after any sequence of calls in
  which every quantity given to \<open>addProductToCart\<close> and \<open>updateProductInCart\<close> is
  positive, every cart item of every cart of the database has a positive quantity.
  The two functions store the quantity they are given and reject none.
\<close>

theorem reachable_carts_positive_quantities:
  assumes "carts s0 = []" and "list_all positive_operation ops"
  shows "list_all positive_quantities (carts (run cfg castObjectId s0 ops))"
proof -
  have "list_all positive_operation ops \<Longrightarrow> list_all positive_quantities (carts s) \<Longrightarrow>
        list_all positive_quantities (carts (run cfg castObjectId s ops))" for s
    by (induction ops arbitrary: s) (simp_all add: apply_operation_positive)
  with assms show ?thesis by simp
qed

theorem reachable_carts_positive_quantities_witness:
  "list_all positive_quantities
     (carts (run \<lparr>default_payment_option = ''PAYMENT_OPTION_DEFAULT''\<rparr> hexObjectId
        \<lparr>carts = [], products = [\<lparr>product_id = ''5f71c1ca04c69a5874e9fd45'', cost = 10\<rparr>]\<rparr>
        [AddItem CreateSucceeds
           \<lparr>user_email = ''a@b.c'', walletMoney = 100, addressConfigured = True\<rparr> ''5f71c1ca04c69a5874e9fd45'' 2,
         UpdateItem
           \<lparr>user_email = ''a@b.c'', walletMoney = 100, addressConfigured = True\<rparr> ''5f71c1ca04c69a5874e9fd45'' 5]))
   \<and> carts (run \<lparr>default_payment_option = ''PAYMENT_OPTION_DEFAULT''\<rparr> hexObjectId
        \<lparr>carts = [], products = [\<lparr>product_id = ''5f71c1ca04c69a5874e9fd45'', cost = 10\<rparr>]\<rparr>
        [AddItem CreateSucceeds
           \<lparr>user_email = ''a@b.c'', walletMoney = 100, addressConfigured = True\<rparr> ''5f71c1ca04c69a5874e9fd45'' 2,
         UpdateItem
           \<lparr>user_email = ''a@b.c'', walletMoney = 100, addressConfigured = True\<rparr> ''5f71c1ca04c69a5874e9fd45'' 5])
     = [\<lparr>email = ''a@b.c'',
         cartItems = [\<lparr>product = \<lparr>product_id = ''5f71c1ca04c69a5874e9fd45'', cost = 10\<rparr>, quantity = 5\<rparr>],
         paymentOption = ''PAYMENT_OPTION_DEFAULT''\<rparr>]"
proof -
  let ?cfg = "\<lparr>default_payment_option = ''PAYMENT_OPTION_DEFAULT''\<rparr>"
  let ?db = "\<lparr>carts = [], products = [\<lparr>product_id = ''5f71c1ca04c69a5874e9fd45'', cost = 10\<rparr>]\<rparr>"
  let ?u = "\<lparr>user_email = ''a@b.c'', walletMoney = 100, addressConfigured = True\<rparr>"
  let ?ops = "[AddItem CreateSucceeds ?u ''5f71c1ca04c69a5874e9fd45'' 2, UpdateItem ?u ''5f71c1ca04c69a5874e9fd45'' 5]"
  have 1: "carts ?db = []" by simp
  have 2: "list_all positive_operation ?ops" by simp
  have 3: "carts (run ?cfg hexObjectId ?db ?ops)
     = [\<lparr>email = ''a@b.c'',
         cartItems = [\<lparr>product = \<lparr>product_id = ''5f71c1ca04c69a5874e9fd45'', cost = 10\<rparr>, quantity = 5\<rparr>],
         paymentOption = ''PAYMENT_OPTION_DEFAULT''\<rparr>]"
    by (simp add: eval_defs)
  from reachable_carts_positive_quantities [OF 1 2, of ?cfg hexObjectId] 3 show ?thesis
    by blast
qed

end
